theory Spec2Isabelle
  imports Complex_Main
begin

section \<open>tools/benchmark.py: the timed loader loop\<close>

text \<open>
  The script reads \<^verbatim>\<open>sys.argv\<close>, prints a header and then, six times, collects
  garbage, reads the clock, calls \<^verbatim>\<open>pandas.read_csv\<close>, reads the clock again and
  prints one row. Everything the script does is an effect on its surroundings, so the
  model keeps a trace of the effects in the order they happen, and takes the behaviour
  of the surroundings (the expression evaluator, the clock, the parser, the text of a
  float) as a parameter.
\<close>

subsection \<open>Values, exceptions, events\<close>

text \<open>
  The values an options expression can evaluate to. A dictionary keeps its items in
  insertion order, as Python's does.
\<close>

datatype pyval =
    VNone
  | VBool bool
  | VInt int
  | VStr string
  | VList "pyval list"
  | VDict "(pyval \<times> pyval) list"

text \<open>Ordinary exceptions: left uncaught, each of them ends the process with a traceback
  and exit status 1.\<close>

datatype exn =
    IndexError
  | TypeError
  | SyntaxError
  | NameError
  | FileNotFoundError
  | ParserError
  | ValueError

text \<open>
  What can end the process early: an ordinary exception, or \<^verbatim>\<open>SystemExit\<close> with an
  integer code, which the interpreter turns into the exit status without a traceback.
\<close>

datatype raised = Exception exn | SystemExit int

text \<open>
  A float: a finite value, an infinity, or not-a-number. Finite values are real numbers;
  rounding to the nearest double is not modelled, overflow is.
\<close>

datatype pyfloat = Fin real | PosInf | NegInf | NaN

text \<open>The largest finite double, \<open>(2 - 2\<^sup>-\<^sup>5\<^sup>2) * 2\<^sup>1\<^sup>0\<^sup>2\<^sup>3\<close>.\<close>

definition float_max :: real where
  "float_max = 2 ^ 1024 - 2 ^ 971"

text \<open>\<^verbatim>\<open>a - b\<close> on two finite floats: a difference beyond the largest double is an
  infinity.\<close>

definition float_sub :: "real \<Rightarrow> real \<Rightarrow> pyfloat" where
  "float_sub a b =
     (if float_max < a - b then PosInf
      else if a - b < - float_max then NegInf
      else Fin (a - b))"

text \<open>
  What the evaluation of an expression comes to: a value, an ordinary exception, or
  \<^verbatim>\<open>SystemExit\<close> (as from \<^verbatim>\<open>sys.exit(0)\<close>, which the expression can reach
  because it is evaluated in the script's own namespace).
\<close>

datatype eval_result = Returns pyval | Raises exn | Exits int

text \<open>The objects this script hands to \<^verbatim>\<open>print\<close>: strings, integers and floats.\<close>

datatype printable = PStr string | PInt int | PFloat pyfloat

type_synonym kwargs = "(string \<times> pyval) list"

text \<open>
  One event per effect: a call of \<^verbatim>\<open>eval\<close> with its argument and the text the
  expression wrote to standard output while it was evaluated, a call of \<^verbatim>\<open>print\<close>
  with its positional arguments and its separator, a call of \<^verbatim>\<open>gc.collect\<close>, a
  call of \<^verbatim>\<open>time.time\<close> with the value it returned, and an entry into
  \<^verbatim>\<open>pandas.read_csv\<close> with the file name and keyword arguments it received.
\<close>

datatype event =
    Eval string string
  | Print "printable list" string
  | GcCollect
  | TimeRead real
  | ReadCsv string kwargs

type_synonym trace = "event list"

text \<open>
  The surroundings. \<open>py_eval s\<close> is what evaluating the expression \<open>s\<close> writes to
  standard output (any text, not necessarily whole lines) and what it comes to; other
  effects of the expression, such as rebinding the script's own names or calling into
  its modules, are not modelled. \<open>time_time n\<close> is what the \<open>n\<close>-th call of
  \<^verbatim>\<open>time.time\<close> returns (counting from 0), a finite float; \<open>read_csv n f kw\<close> is the
  exception the \<open>n\<close>-th call of the parser raises, if any; \<open>str_float\<close> is the text of
  a float. \<^verbatim>\<open>gc.collect\<close>, \<^verbatim>\<open>time.time\<close> and \<^verbatim>\<open>print\<close> are taken not to raise.
\<close>

record world =
  py_eval :: "string \<Rightarrow> string \<times> eval_result"
  time_time :: "nat \<Rightarrow> real"
  read_csv :: "nat \<Rightarrow> string \<Rightarrow> kwargs \<Rightarrow> exn option"
  str_float :: "pyfloat \<Rightarrow> string"

subsection \<open>Built-ins the script uses\<close>

text \<open>\<^verbatim>\<open>sys.argv[i]\<close> for a non-negative \<open>i\<close>: IndexError out of range.\<close>

definition argv_get :: "string list \<Rightarrow> nat \<Rightarrow> exn + string" where
  "argv_get argv i = (if i < length argv then Inr (argv ! i) else Inl IndexError)"

text \<open>\<^verbatim>\<open>range(n)\<close>.\<close>

definition py_range :: "nat \<Rightarrow> nat list" where
  "py_range n = [0..<n]"

text \<open>\<^verbatim>\<open>str\<close> of an integer: decimal digits, with a minus sign when negative.\<close>

definition digit_char :: "nat \<Rightarrow> char" where
  "digit_char d = ''0123456789'' ! d"

fun digits :: "nat \<Rightarrow> string" where
  "digits n = (if n < 10 then [digit_char n] else digits (n div 10) @ [digit_char (n mod 10)])"

declare digits.simps [simp del]

definition str_int :: "int \<Rightarrow> string" where
  "str_int i = (if i < 0 then CHR ''-'' # digits (nat (- i)) else digits (nat i))"

text \<open>\<^verbatim>\<open>str\<close> of an object passed to \<^verbatim>\<open>print\<close>.\<close>

fun py_str :: "world \<Rightarrow> printable \<Rightarrow> string" where
  "py_str w (PStr s) = s"
| "py_str w (PInt i) = str_int i"
| "py_str w (PFloat x) = str_float w x"

text \<open>\<^verbatim>\<open>sep.join(strs)\<close>.\<close>

fun join :: "string \<Rightarrow> string list \<Rightarrow> string" where
  "join sep [] = []"
| "join sep [s] = s"
| "join sep (s # t # ss) = s @ sep @ join sep (t # ss)"

text \<open>The line one call of \<^verbatim>\<open>print\<close> writes, before the newline that ends it.\<close>

definition line_of :: "world \<Rightarrow> printable list \<Rightarrow> string \<Rightarrow> string" where
  "line_of w args sep = join sep (map (py_str w) args)"

definition newline :: char where
  "newline = CHR 0x0A"

text \<open>
  The keyword arguments \<^verbatim>\<open>**params\<close> passes: \<open>params\<close> must be a mapping and each of
  its keys a string, or the call raises TypeError before the callee is entered.
\<close>

fun kw_items :: "(pyval \<times> pyval) list \<Rightarrow> exn + kwargs" where
  "kw_items [] = Inr []"
| "kw_items ((VStr k, v) # kvs) =
     (case kw_items kvs of Inl e \<Rightarrow> Inl e | Inr kw \<Rightarrow> Inr ((k, v) # kw))"
| "kw_items (_ # kvs) = Inl TypeError"

fun unpack_kwargs :: "pyval \<Rightarrow> exn + kwargs" where
  "unpack_kwargs (VDict kvs) = kw_items kvs"
| "unpack_kwargs _ = Inl TypeError"

subsection \<open>What a trace shows\<close>

text \<open>
  Standard output, as the stream of characters written to it: the text an evaluated
  expression wrote, and for every call of \<^verbatim>\<open>print\<close> its line and a newline.
\<close>

fun stdout :: "world \<Rightarrow> trace \<Rightarrow> string" where
  "stdout w [] = []"
| "stdout w (Eval s out # tr) = out @ stdout w tr"
| "stdout w (Print args sep # tr) = line_of w args sep @ newline # stdout w tr"
| "stdout w (_ # tr) = stdout w tr"

text \<open>The lines the script's own calls of \<^verbatim>\<open>print\<close> wrote, one per call.\<close>

fun printed :: "world \<Rightarrow> trace \<Rightarrow> string list" where
  "printed w [] = []"
| "printed w (Print args sep # tr) = line_of w args sep # printed w tr"
| "printed w (_ # tr) = printed w tr"

text \<open>Lines written one after the other, each ended by a newline.\<close>

fun unlines :: "string list \<Rightarrow> string" where
  "unlines [] = []"
| "unlines (l # ls) = l @ newline # unlines ls"

text \<open>A text cut into its lines at the newlines, as \<^verbatim>\<open>str.splitlines\<close> does.\<close>

fun lines_of :: "string \<Rightarrow> string list" where
  "lines_of [] = []"
| "lines_of (c # cs) =
     (if c = newline then [] # lines_of cs
      else (case lines_of cs of [] \<Rightarrow> [[c]] | l # ls \<Rightarrow> (c # l) # ls))"

text \<open>How often the clock has been read, and how often the parser has been entered.\<close>

fun clock_reads :: "trace \<Rightarrow> nat" where
  "clock_reads [] = 0"
| "clock_reads (TimeRead t # tr) = Suc (clock_reads tr)"
| "clock_reads (_ # tr) = clock_reads tr"

fun parser_calls :: "trace \<Rightarrow> (string \<times> kwargs) list" where
  "parser_calls [] = []"
| "parser_calls (ReadCsv f kw # tr) = (f, kw) # parser_calls tr"
| "parser_calls (_ # tr) = parser_calls tr"

text \<open>The expressions handed to \<^verbatim>\<open>eval\<close>, and the number of garbage collections.\<close>

fun eval_calls :: "trace \<Rightarrow> string list" where
  "eval_calls [] = []"
| "eval_calls (Eval s out # tr) = s # eval_calls tr"
| "eval_calls (_ # tr) = eval_calls tr"


text \<open>The floats handed to \<^verbatim>\<open>print\<close>, in order: the elapsed values of the rows.\<close>

fun floats_of :: "printable list \<Rightarrow> pyfloat list" where
  "floats_of [] = []"
| "floats_of (PFloat x # ps) = x # floats_of ps"
| "floats_of (_ # ps) = floats_of ps"

fun elapsed_values :: "trace \<Rightarrow> pyfloat list" where
  "elapsed_values [] = []"
| "elapsed_values (Print args sep # tr) = floats_of args @ elapsed_values tr"
| "elapsed_values (_ # tr) = elapsed_values tr"

text \<open>
  The exit status of the process: 0 at the end of the script, 1 after an uncaught
  ordinary exception, the low eight bits of the code after \<^verbatim>\<open>SystemExit\<close>.
\<close>

fun exit_status :: "raised option \<Rightarrow> nat" where
  "exit_status None = 0"
| "exit_status (Some (Exception e)) = 1"
| "exit_status (Some (SystemExit c)) = nat (c mod 256)"

subsection \<open>The script\<close>

text \<open>
  Lines 7 to 10: \<^verbatim>\<open>params = eval(sys.argv[2])\<close> when there is a second argument,
  \<^verbatim>\<open>params = {}\<close> otherwise. The evaluation leaves what it wrote on standard
  output whether it returns or not.
\<close>

definition read_params :: "world \<Rightarrow> string list \<Rightarrow> trace \<times> (raised + pyval)" where
  "read_params w argv =
     (if length argv > 2 then
        (case py_eval w (argv ! 2) of
           (out, Returns v) \<Rightarrow> ([Eval (argv ! 2) out], Inr v)
         | (out, Raises e) \<Rightarrow> ([Eval (argv ! 2) out], Inl (Exception e))
         | (out, Exits c) \<Rightarrow> ([Eval (argv ! 2) out], Inl (SystemExit c)))
      else ([], Inr (VDict [])))"

text \<open>
  Lines 14 to 18, the body of the loop, run after the effects \<open>tr\<close>. The call in line
  16 unpacks \<open>params\<close> first; only when that succeeds is the parser entered.
\<close>

definition repetition ::
  "world \<Rightarrow> string \<Rightarrow> pyval \<Rightarrow> nat \<Rightarrow> trace \<Rightarrow> trace \<times> raised option" where
  "repetition w filename params i tr =
     (let tr1 = tr @ [GcCollect];
          start = time_time w (clock_reads tr1);
          tr2 = tr1 @ [TimeRead start]
      in case unpack_kwargs params of
           Inl e \<Rightarrow> (tr2, Some (Exception e))
         | Inr kw \<Rightarrow>
             (let tr3 = tr2 @ [ReadCsv filename kw]
              in case read_csv w (length (parser_calls tr2)) filename kw of
                   Some e \<Rightarrow> (tr3, Some (Exception e))
                 | None \<Rightarrow>
                     (let now = time_time w (clock_reads tr3);
                          tr4 = tr3 @ [TimeRead now];
                          elapsed = float_sub now start
                      in (tr4 @ [Print [PStr ''pandas'', PStr '','', PInt (int i + 1),
                                        PStr '','', PFloat elapsed] ''''],
                          None))))"

text \<open>Line 13: the loop stops at the first exception.\<close>

fun loop ::
  "world \<Rightarrow> string \<Rightarrow> pyval \<Rightarrow> nat list \<Rightarrow> trace \<Rightarrow> trace \<times> raised option" where
  "loop w filename params [] tr = (tr, None)"
| "loop w filename params (i # is) tr =
     (case repetition w filename params i tr of
        (tr', Some e) \<Rightarrow> (tr', Some e)
      | (tr', None) \<Rightarrow> loop w filename params is tr')"

text \<open>The whole script: the effects it has had, and what ended it early, if anything.\<close>

definition main :: "world \<Rightarrow> string list \<Rightarrow> trace \<times> raised option" where
  "main w argv =
     (case argv_get argv 1 of
        Inl e \<Rightarrow> ([], Some (Exception e))
      | Inr filename \<Rightarrow>
          (case read_params w argv of
             (tr, Inl r) \<Rightarrow> (tr, Some r)
           | (tr, Inr params) \<Rightarrow>
               loop w filename params (py_range 6)
                 (tr @ [Print [PStr ''package,run,elapsed''] '' ''])))"

subsection \<open>The traces the script is expected to leave\<close>

text \<open>The header line, printed by line 12 with the default separator.\<close>

definition header_event :: event where
  "header_event = Print [PStr ''package,run,elapsed''] '' ''"

text \<open>Everything before the loop: the evaluation of the options, if any, and the header.\<close>

definition startup_events :: "world \<Rightarrow> string list \<Rightarrow> event list" where
  "startup_events w argv = fst (read_params w argv) @ [header_event]"

text \<open>What the evaluation of the options wrote to standard output: nothing when there
  is no options argument.\<close>

definition options_output :: "world \<Rightarrow> string list \<Rightarrow> string" where
  "options_output w argv = (if 2 < length argv then fst (py_eval w (argv ! 2)) else [])"

text \<open>
  A complete repetition with run index \<open>i\<close> (counting from 0) when it is the \<open>i\<close>-th
  to run: it owns the clock readings \<open>2 * i\<close> and \<open>2 * i + 1\<close>.
\<close>

definition rep_events :: "world \<Rightarrow> string \<Rightarrow> kwargs \<Rightarrow> nat \<Rightarrow> event list" where
  "rep_events w f kw i =
     [GcCollect,
      TimeRead (time_time w (2 * i)),
      ReadCsv f kw,
      TimeRead (time_time w (2 * i + 1)),
      Print [PStr ''pandas'', PStr '','', PInt (int i + 1), PStr '','',
             PFloat (float_sub (time_time w (2 * i + 1)) (time_time w (2 * i)))] '''']"

text \<open>A repetition in which the parser raises: nothing follows the call.\<close>

definition failed_rep_events :: "world \<Rightarrow> string \<Rightarrow> kwargs \<Rightarrow> nat \<Rightarrow> event list" where
  "failed_rep_events w f kw i = [GcCollect, TimeRead (time_time w (2 * i)), ReadCsv f kw]"

text \<open>The elapsed value and the output line of repetition \<open>i\<close>.\<close>

definition elapsed_at :: "world \<Rightarrow> nat \<Rightarrow> pyfloat" where
  "elapsed_at w i = float_sub (time_time w (2 * i + 1)) (time_time w (2 * i))"

definition data_row :: "world \<Rightarrow> nat \<Rightarrow> string" where
  "data_row w i = ''pandas'' @ '','' @ str_int (int i + 1) @ '','' @ str_float w (elapsed_at w i)"

subsection \<open>Notions the properties are stated with\<close>


text \<open>
  An options argument that is not usable: its evaluation raises an error, or it returns
  something that is not a mapping with string keys. An expression that ends the process
  with \<^verbatim>\<open>SystemExit\<close> is not counted here.
\<close>

definition malformed_options :: "world \<Rightarrow> string list \<Rightarrow> bool" where
  "malformed_options w argv \<longleftrightarrow>
     2 < length argv \<and>
     (case snd (py_eval w (argv ! 2)) of
        Returns v \<Rightarrow> (case unpack_kwargs v of Inl e \<Rightarrow> True | Inr kw \<Rightarrow> False)
      | Raises e \<Rightarrow> True
      | Exits c \<Rightarrow> False)"

text \<open>What ends the process when the evaluation of the options does not return.\<close>

fun stopped_by :: "eval_result \<Rightarrow> raised option" where
  "stopped_by (Returns v) = None"
| "stopped_by (Raises e) = Some (Exception e)"
| "stopped_by (Exits c) = Some (SystemExit c)"

text \<open>
  A mapping with string keys, written as the dictionary whose items are the given
  keyword arguments in their order.
\<close>

definition dict_of :: "kwargs \<Rightarrow> pyval" where
  "dict_of kw = VDict (map (\<lambda>(k, v). (VStr k, v)) kw)"





subsection \<open>Sample surroundings\<close>

text \<open>
  An evaluator that agrees with Python's on the eight expressions used below
  (\<^verbatim>\<open>print\<close> returns \<^verbatim>\<open>None\<close>, so \<^verbatim>\<open>print(1) or e\<close> writes a line and goes on
  to evaluate \<^verbatim>\<open>e\<close>). On every other text it raises SyntaxError, which is not what
  Python does on all of them.
\<close>

definition sample_eval :: "string \<Rightarrow> string \<times> eval_result" where
  "sample_eval s =
     (if s = ''{}'' then ([], Returns (VDict []))
      else if s = ''dict(header=None)'' then ([], Returns (VDict [(VStr ''header'', VNone)]))
      else if s = ''5'' then ([], Returns (VInt 5))
      else if s = ''{1: 2}'' then ([], Returns (VDict [(VInt 1, VInt 2)]))
      else if s = ''nosuchname'' then ([], Raises NameError)
      else if s = ''print(1) or {}'' then (''1'' @ [newline], Returns (VDict []))
      else if s = ''print(1) or nosuchname'' then (''1'' @ [newline], Raises NameError)
      else if s = ''sys.exit(0)'' then ([], Exits 0)
      else ([], Raises SyntaxError))"

text \<open>
  The text of a float with an integral value, as Python writes it below \<open>10^16\<close>; other
  finite values do not occur in the samples.
\<close>

fun sample_str_float :: "pyfloat \<Rightarrow> string" where
  "sample_str_float (Fin x) =
     (if x = of_int \<lfloor>x\<rfloor> then str_int \<lfloor>x\<rfloor> @ ''.0'' else ''<float>'')"
| "sample_str_float PosInf = ''inf''"
| "sample_str_float NegInf = ''-inf''"
| "sample_str_float NaN = ''nan''"

text \<open>A file \<^verbatim>\<open>a.csv\<close> that parses, and a clock whose \<open>n\<close>-th reading is \<open>n\<^sup>2\<close>.\<close>

definition sample_world :: world where
  "sample_world =
     \<lparr>py_eval = sample_eval,
      time_time = (\<lambda>n. of_nat (n * n)),
      read_csv = (\<lambda>n f kw. if f = ''a.csv'' then None else Some FileNotFoundError),
      str_float = sample_str_float\<rparr>"



section \<open>Properties\<close>

subsection \<open>What a trace shows, piecewise\<close>

lemma stdout_append: "stdout w (tr @ tr') = stdout w tr @ stdout w tr'"
  by (induction w tr rule: stdout.induct) simp_all

lemma printed_append: "printed w (tr @ tr') = printed w tr @ printed w tr'"
  by (induction w tr rule: printed.induct) simp_all

lemma clock_reads_append: "clock_reads (tr @ tr') = clock_reads tr + clock_reads tr'"
  by (induction tr rule: clock_reads.induct) simp_all

lemma parser_calls_append: "parser_calls (tr @ tr') = parser_calls tr @ parser_calls tr'"
  by (induction tr rule: parser_calls.induct) simp_all

lemma eval_calls_append: "eval_calls (tr @ tr') = eval_calls tr @ eval_calls tr'"
  by (induction tr rule: eval_calls.induct) simp_all


lemma elapsed_values_append: "elapsed_values (tr @ tr') = elapsed_values tr @ elapsed_values tr'"
  by (induction tr rule: elapsed_values.induct) simp_all


lemma unlines_append: "unlines (ls @ ls') = unlines ls @ unlines ls'"
  by (induction ls) simp_all

text \<open>Without a call of \<^verbatim>\<open>eval\<close>, standard output is the printed lines.\<close>

lemma stdout_no_eval: "eval_calls tr = [] \<Longrightarrow> stdout w tr = unlines (printed w tr)"
  by (induction w tr rule: stdout.induct) simp_all

subsection \<open>One repetition, and the loop\<close>

lemma repetition_ok:
  assumes "unpack_kwargs p = Inr kw" "clock_reads tr = 2 * i" "length (parser_calls tr) = i"
    "read_csv w i f kw = None"
  shows "repetition w f p i tr = (tr @ rep_events w f kw i, None)"
  using assms
  by (simp add: repetition_def Let_def clock_reads_append parser_calls_append rep_events_def)

lemma repetition_parser_error:
  assumes "unpack_kwargs p = Inr kw" "clock_reads tr = 2 * i" "length (parser_calls tr) = i"
    "read_csv w i f kw = Some e"
  shows "repetition w f p i tr = (tr @ failed_rep_events w f kw i, Some (Exception e))"
  using assms
  by (simp add: repetition_def Let_def clock_reads_append parser_calls_append failed_rep_events_def)

lemma repetition_type_error:
  assumes "unpack_kwargs p = Inl e"
  shows "repetition w f p i tr =
           (tr @ [GcCollect, TimeRead (time_time w (clock_reads tr))], Some (Exception e))"
  using assms
  by (simp add: repetition_def Let_def clock_reads_append)

lemma clock_reads_rep_events: "clock_reads (rep_events w f kw i) = 2"
  by (simp add: rep_events_def)

lemma parser_calls_rep_events: "parser_calls (rep_events w f kw i) = [(f, kw)]"
  by (simp add: rep_events_def)

lemma loop_ok:
  assumes "unpack_kwargs p = Inr kw"
  shows "clock_reads tr = 2 * m \<Longrightarrow> length (parser_calls tr) = m \<Longrightarrow>
         (\<forall>j. m \<le> j \<and> j < n \<longrightarrow> read_csv w j f kw = None) \<Longrightarrow>
         loop w f p [m..<n] tr = (tr @ concat (map (rep_events w f kw) [m..<n]), None)"
proof (induction "n - m" arbitrary: m tr)
  case 0
  then show ?case by simp
next
  case (Suc d)
  then have mn: "m < n" by simp
  have step: "repetition w f p m tr = (tr @ rep_events w f kw m, None)"
    using Suc.prems mn by (intro repetition_ok [OF assms]) auto
  have "loop w f p [Suc m..<n] (tr @ rep_events w f kw m) =
          ((tr @ rep_events w f kw m) @ concat (map (rep_events w f kw) [Suc m..<n]), None)"
    using Suc.hyps Suc.prems
    by (intro Suc.hyps(1))
       (auto simp: clock_reads_append parser_calls_append clock_reads_rep_events
                   parser_calls_rep_events)
  then show ?case
    using mn step by (simp add: upt_conv_Cons)
qed

lemma loop_parser_error:
  assumes "unpack_kwargs p = Inr kw"
  shows "clock_reads tr = 2 * m \<Longrightarrow> length (parser_calls tr) = m \<Longrightarrow>
         m \<le> k \<Longrightarrow> k < n \<Longrightarrow>
         (\<forall>j. m \<le> j \<and> j < k \<longrightarrow> read_csv w j f kw = None) \<Longrightarrow>
         read_csv w k f kw = Some e \<Longrightarrow>
         loop w f p [m..<n] tr =
           (tr @ concat (map (rep_events w f kw) [m..<k]) @ failed_rep_events w f kw k,
            Some (Exception e))"
proof (induction "k - m" arbitrary: m tr)
  case 0
  then have km: "k = m" by simp
  have "repetition w f p m tr = (tr @ failed_rep_events w f kw m, Some (Exception e))"
    using 0 km by (intro repetition_parser_error [OF assms]) auto
  then show ?case
    using 0 km by (simp add: upt_conv_Cons)
next
  case (Suc d)
  then have mk: "m < k" and mn: "m < n" by simp_all
  have step: "repetition w f p m tr = (tr @ rep_events w f kw m, None)"
    using Suc.prems mk by (intro repetition_ok [OF assms]) auto
  have "loop w f p [Suc m..<n] (tr @ rep_events w f kw m) =
          ((tr @ rep_events w f kw m) @ concat (map (rep_events w f kw) [Suc m..<k])
             @ failed_rep_events w f kw k, Some (Exception e))"
    using Suc.hyps Suc.prems mk
    by (intro Suc.hyps(1))
       (auto simp: clock_reads_append parser_calls_append clock_reads_rep_events
                   parser_calls_rep_events)
  then show ?case
    using mk mn step by (simp add: upt_conv_Cons)
qed

lemma loop_type_error:
  assumes "unpack_kwargs p = Inl e" "m < n"
  shows "loop w f p [m..<n] tr =
           (tr @ [GcCollect, TimeRead (time_time w (clock_reads tr))], Some (Exception e))"
  using assms by (simp add: upt_conv_Cons repetition_type_error)

subsection \<open>The five ways a run can go\<close>

lemma read_params_short: "length argv \<le> 2 \<Longrightarrow> read_params w argv = ([], Inr (VDict []))"
  by (simp add: read_params_def)

lemma fst_read_params:
  "fst (read_params w argv) =
     (if 2 < length argv then [Eval (argv ! 2) (fst (py_eval w (argv ! 2)))] else [])"
  by (simp add: read_params_def split: prod.splits eval_result.splits)

lemma snd_read_params:
  "snd (read_params w argv) =
     (if 2 < length argv then
        (case snd (py_eval w (argv ! 2)) of
           Returns v \<Rightarrow> Inr v
         | Raises e \<Rightarrow> Inl (Exception e)
         | Exits c \<Rightarrow> Inl (SystemExit c))
      else Inr (VDict []))"
  by (simp add: read_params_def split: prod.splits eval_result.splits)

lemma main_no_filename:
  "length argv \<le> 1 \<Longrightarrow> main w argv = ([], Some (Exception IndexError))"
  by (simp add: main_def argv_get_def)

lemma main_eval_stops:
  "1 < length argv \<Longrightarrow> snd (read_params w argv) = Inl r \<Longrightarrow>
   main w argv = (fst (read_params w argv), Some r)"
  by (cases "read_params w argv") (simp add: main_def argv_get_def)

lemma main_loop:
  "1 < length argv \<Longrightarrow> snd (read_params w argv) = Inr p \<Longrightarrow>
   main w argv = loop w (argv ! 1) p [0..<6] (startup_events w argv)"
  by (cases "read_params w argv")
     (simp add: main_def argv_get_def startup_events_def header_event_def py_range_def)

lemma clock_reads_startup: "clock_reads (startup_events w argv) = 0"
  by (simp add: startup_events_def fst_read_params header_event_def clock_reads_append)

lemma parser_calls_startup: "parser_calls (startup_events w argv) = []"
  by (simp add: startup_events_def fst_read_params header_event_def parser_calls_append)

lemma main_type_error:
  assumes "1 < length argv" "snd (read_params w argv) = Inr p" "unpack_kwargs p = Inl e"
  shows "main w argv =
           (startup_events w argv @ [GcCollect, TimeRead (time_time w 0)], Some (Exception e))"
  using loop_type_error [OF assms(3), of 0 6 w "argv ! 1" "startup_events w argv"]
  by (simp add: main_loop [OF assms(1,2)] clock_reads_startup)

lemma main_parser_error:
  assumes "1 < length argv" "snd (read_params w argv) = Inr p" "unpack_kwargs p = Inr kw"
    "k < 6" "\<forall>j<k. read_csv w j (argv ! 1) kw = None" "read_csv w k (argv ! 1) kw = Some e"
  shows "main w argv =
           (startup_events w argv @ concat (map (rep_events w (argv ! 1) kw) [0..<k])
              @ failed_rep_events w (argv ! 1) kw k, Some (Exception e))"
  using loop_parser_error [OF assms(3), of "startup_events w argv" 0 k 6 w "argv ! 1" e] assms
  by (simp add: main_loop [OF assms(1,2)] clock_reads_startup parser_calls_startup)

lemma main_ok:
  assumes "1 < length argv" "snd (read_params w argv) = Inr p" "unpack_kwargs p = Inr kw"
    "\<forall>j<6. read_csv w j (argv ! 1) kw = None"
  shows "main w argv =
           (startup_events w argv @ concat (map (rep_events w (argv ! 1) kw) [0..<6]), None)"
  using loop_ok [OF assms(3), of "startup_events w argv" 0 6 w "argv ! 1"] assms
  by (simp add: main_loop [OF assms(1,2)] clock_reads_startup parser_calls_startup)

lemma first_failure:
  fixes P :: "nat \<Rightarrow> bool"
  assumes "\<not> (\<forall>j<n. P j)"
  obtains k where "k < n" "\<forall>j<k. P j" "\<not> P k"
proof -
  define k where "k = (LEAST j. \<not> P j)"
  from assms obtain j where j: "j < n" "\<not> P j" by auto
  have nk: "\<not> P k" unfolding k_def using j(2) by (rule LeastI)
  have "k \<le> j" unfolding k_def using j(2) by (rule Least_le)
  with j(1) have kn: "k < n" by simp
  have before: "\<forall>i<k. P i" unfolding k_def using not_less_Least by blast
  show thesis using kn before nk by (rule that)
qed

lemma main_cases:
  obtains
    (no_filename) "length argv \<le> 1" "main w argv = ([], Some (Exception IndexError))"
  | (eval_stops) r where "2 < length argv" "snd (read_params w argv) = Inl r"
      "stopped_by (snd (py_eval w (argv ! 2))) = Some r"
      "main w argv = ([Eval (argv ! 2) (fst (py_eval w (argv ! 2)))], Some r)"
  | (type_error) p e where "1 < length argv" "snd (read_params w argv) = Inr p"
      "unpack_kwargs p = Inl e"
      "main w argv =
         (startup_events w argv @ [GcCollect, TimeRead (time_time w 0)], Some (Exception e))"
  | (parser_error) p kw k e where "1 < length argv" "snd (read_params w argv) = Inr p"
      "unpack_kwargs p = Inr kw" "k < 6" "\<forall>j<k. read_csv w j (argv ! 1) kw = None"
      "read_csv w k (argv ! 1) kw = Some e"
      "main w argv =
         (startup_events w argv @ concat (map (rep_events w (argv ! 1) kw) [0..<k])
            @ failed_rep_events w (argv ! 1) kw k, Some (Exception e))"
  | (ok) p kw where "1 < length argv" "snd (read_params w argv) = Inr p"
      "unpack_kwargs p = Inr kw" "\<forall>j<6. read_csv w j (argv ! 1) kw = None"
      "main w argv =
         (startup_events w argv @ concat (map (rep_events w (argv ! 1) kw) [0..<6]), None)"
proof (cases "length argv \<le> 1")
  case True
  then show thesis using no_filename main_no_filename by blast
next
  case long: False
  then have len: "1 < length argv" by simp
  show thesis
  proof (cases "snd (read_params w argv)")
    case (Inl r)
    then have len2: "2 < length argv"
      by (auto simp: snd_read_params split: if_splits)
    from Inl len2 have st: "stopped_by (snd (py_eval w (argv ! 2))) = Some r"
      by (auto simp: snd_read_params split: eval_result.splits)
    have "main w argv = ([Eval (argv ! 2) (fst (py_eval w (argv ! 2)))], Some r)"
      using main_eval_stops [OF len Inl] len2 by (simp add: fst_read_params)
    then show thesis using eval_stops len2 Inl st by blast
  next
    case (Inr p)
    show thesis
    proof (cases "unpack_kwargs p")
      case (Inl e)
      then show thesis using type_error main_type_error len Inr by blast
    next
      case kw: (Inr kw)
      show thesis
      proof (cases "\<forall>j<6. read_csv w j (argv ! 1) kw = None")
        case True
        then show thesis using ok main_ok [OF len Inr kw] len Inr kw by blast
      next
        case False
        then obtain k where k: "k < 6" "\<forall>j<k. read_csv w j (argv ! 1) kw = None"
          "read_csv w k (argv ! 1) kw \<noteq> None"
          by (rule first_failure)
        then obtain e where e: "read_csv w k (argv ! 1) kw = Some e" by auto
        show thesis
          using parser_error [OF len Inr kw k(1,2) e] main_parser_error [OF len Inr kw k(1,2) e]
          by blast
      qed
    qed
  qed
qed

lemma main_ok_iff:
  assumes "snd (main w argv) = None"
  obtains p kw where "1 < length argv" "snd (read_params w argv) = Inr p"
      "unpack_kwargs p = Inr kw" "\<forall>j<6. read_csv w j (argv ! 1) kw = None"
      "main w argv =
         (startup_events w argv @ concat (map (rep_events w (argv ! 1) kw) [0..<6]), None)"
  using assms by (cases w argv rule: main_cases) auto

subsection \<open>What the expected traces show\<close>

lemma line_of_header: "line_of w [PStr s] sep = s"
  by (simp add: line_of_def)

lemma printed_startup: "printed w (startup_events w argv) = [''package,run,elapsed'']"
  by (simp add: startup_events_def fst_read_params header_event_def printed_append
      line_of_header)

lemma stdout_startup:
  "stdout w (startup_events w argv) =
     options_output w argv @ unlines [''package,run,elapsed'']"
  by (simp add: startup_events_def fst_read_params header_event_def stdout_append
      line_of_header options_output_def)

lemma eval_calls_startup:
  "eval_calls (startup_events w argv) = (if 2 < length argv then [argv ! 2] else [])"
  by (simp add: startup_events_def fst_read_params header_event_def eval_calls_append)


lemma elapsed_values_startup: "elapsed_values (startup_events w argv) = []"
  by (simp add: startup_events_def fst_read_params header_event_def elapsed_values_append)


lemma hd_startup:
  "2 < length argv \<Longrightarrow>
   hd (startup_events w argv @ tr) = Eval (argv ! 2) (fst (py_eval w (argv ! 2)))"
  by (simp add: startup_events_def fst_read_params)

lemma printed_rep_events: "printed w (rep_events w f kw i) = [data_row w i]"
  by (simp add: rep_events_def line_of_def data_row_def elapsed_at_def)

lemma elapsed_values_rep_events: "elapsed_values (rep_events w f kw i) = [elapsed_at w i]"
  by (simp add: rep_events_def elapsed_at_def)


lemma eval_calls_rep_events: "eval_calls (rep_events w f kw i) = []"
  by (simp add: rep_events_def)


lemma printed_reps: "printed w (concat (map (rep_events w f kw) is)) = map (data_row w) is"
  by (induction "is") (simp_all add: printed_append printed_rep_events)

lemma elapsed_values_reps:
  "elapsed_values (concat (map (rep_events w f kw) is)) = map (elapsed_at w) is"
  by (induction "is") (simp_all add: elapsed_values_append elapsed_values_rep_events)

lemma parser_calls_reps:
  "parser_calls (concat (map (rep_events w f kw) is)) = replicate (length is) (f, kw)"
  by (induction "is") (simp_all add: parser_calls_append parser_calls_rep_events)



lemma eval_calls_reps: "eval_calls (concat (map (rep_events w f kw) is)) = []"
  by (induction "is") (simp_all add: eval_calls_append eval_calls_rep_events)


lemma printed_failed_rep: "printed w (failed_rep_events w f kw i) = []"
  by (simp add: failed_rep_events_def)

lemma elapsed_values_failed_rep: "elapsed_values (failed_rep_events w f kw i) = []"
  by (simp add: failed_rep_events_def)

lemma parser_calls_failed_rep: "parser_calls (failed_rep_events w f kw i) = [(f, kw)]"
  by (simp add: failed_rep_events_def)



lemma eval_calls_failed_rep: "eval_calls (failed_rep_events w f kw i) = []"
  by (simp add: failed_rep_events_def)

text \<open>
  Whatever the run, standard output is what the evaluation of the options wrote,
  followed by the lines the script printed.
\<close>

lemma stdout_after_startup:
  assumes "eval_calls tr = []"
  shows "stdout w (startup_events w argv @ tr) =
           options_output w argv @ unlines (printed w (startup_events w argv @ tr))"
  using assms
  by (simp add: stdout_append stdout_startup printed_append printed_startup stdout_no_eval)

lemma stdout_main:
  "stdout w (fst (main w argv)) = options_output w argv @ unlines (printed w (fst (main w argv)))"
proof (cases w argv rule: main_cases)
  case no_filename
  then show ?thesis by (simp add: options_output_def)
next
  case (eval_stops r)
  then show ?thesis by (simp add: options_output_def)
next
  case (type_error p e)
  show ?thesis
    unfolding type_error(4) fst_conv by (rule stdout_after_startup) simp
next
  case (parser_error p kw k e)
  show ?thesis
    unfolding parser_error(7) fst_conv
    by (rule stdout_after_startup)
       (simp add: eval_calls_append eval_calls_reps eval_calls_failed_rep)
next
  case (ok p kw)
  show ?thesis
    unfolding ok(5) fst_conv
    by (rule stdout_after_startup) (simp add: eval_calls_reps)
qed

lemma upt_6: "[0..<6] = [0, 1, 2, 3, 4, 5]"
  by (simp add: upt_rec)

lemma str_int_digit: "0 \<le> i \<Longrightarrow> i < 10 \<Longrightarrow> str_int i = [digit_char (nat i)]"
  by (simp add: str_int_def digits.simps)

lemma data_rows_6:
  "map (data_row w) [0..<6] =
     [''pandas,1,'' @ str_float w (elapsed_at w 0),
      ''pandas,2,'' @ str_float w (elapsed_at w 1),
      ''pandas,3,'' @ str_float w (elapsed_at w 2),
      ''pandas,4,'' @ str_float w (elapsed_at w 3),
      ''pandas,5,'' @ str_float w (elapsed_at w 4),
      ''pandas,6,'' @ str_float w (elapsed_at w 5)]"
  by (simp add: upt_6 data_row_def str_int_digit digit_char_def)

text \<open>The script's own lines and elapsed values, whatever the run.\<close>

lemma run_shape:
  obtains
    (silent) "printed w (fst (main w argv)) = []" "elapsed_values (fst (main w argv)) = []"
  | (rows) n where "n \<le> 6"
      "printed w (fst (main w argv)) = ''package,run,elapsed'' # map (data_row w) [0..<n]"
      "elapsed_values (fst (main w argv)) = map (elapsed_at w) [0..<n]"
proof (cases w argv rule: main_cases)
  case no_filename
  then show thesis using silent by simp
next
  case (eval_stops r)
  then show thesis using silent by simp
next
  case (type_error p e)
  then have "printed w (fst (main w argv)) = ''package,run,elapsed'' # map (data_row w) [0..<0]"
    "elapsed_values (fst (main w argv)) = map (elapsed_at w) [0..<0]"
    by (simp_all add: printed_append printed_startup elapsed_values_append
        elapsed_values_startup)
  then show thesis using rows [of 0] by simp
next
  case (parser_error p kw k e)
  then have "printed w (fst (main w argv)) = ''package,run,elapsed'' # map (data_row w) [0..<k]"
    "elapsed_values (fst (main w argv)) = map (elapsed_at w) [0..<k]"
    by (simp_all add: printed_append printed_startup printed_reps printed_failed_rep
        elapsed_values_append elapsed_values_startup elapsed_values_reps
        elapsed_values_failed_rep)
  then show thesis using rows [of k] parser_error(4) by simp
next
  case (ok p kw)
  then have "printed w (fst (main w argv)) = ''package,run,elapsed'' # map (data_row w) [0..<6]"
    "elapsed_values (fst (main w argv)) = map (elapsed_at w) [0..<6]"
    by (simp_all add: printed_append printed_startup printed_reps
        elapsed_values_append elapsed_values_startup elapsed_values_reps)
  then show thesis using rows [of 6] by simp
qed



subsection \<open>Unpacking, and float subtraction\<close>

lemma kw_items_error: "kw_items kvs = Inl e \<Longrightarrow> e = TypeError"
  by (induction kvs rule: kw_items.induct) (auto split: sum.splits)

lemma unpack_kwargs_error: "unpack_kwargs v = Inl e \<Longrightarrow> e = TypeError"
  by (cases v) (auto dest: kw_items_error)

lemma kw_items_dict: "kw_items kvs = Inr kw \<Longrightarrow> kvs = map (\<lambda>(k, v). (VStr k, v)) kw"
  by (induction kvs arbitrary: kw rule: kw_items.induct) (auto split: sum.splits)

lemma unpack_kwargs_dict: "unpack_kwargs p = Inr kw \<Longrightarrow> p = dict_of kw"
  by (cases p) (auto simp: dict_of_def dest: kw_items_dict)

lemma kw_items_of_dict: "kw_items (map (\<lambda>(k, v). (VStr k, v)) kw) = Inr kw"
  by (induction kw) auto

lemma unpack_kwargs_of_dict: "unpack_kwargs (dict_of kw) = Inr kw"
  by (simp add: dict_of_def kw_items_of_dict)

lemma float_max_large: "2 ^ 64 \<le> float_max"
  by (simp add: float_max_def)

lemma float_sub_in_range:
  "\<bar>a - b\<bar> \<le> float_max \<Longrightarrow> float_sub a b = Fin (a - b)"
  by (auto simp: float_sub_def)

lemma float_sub_small: "\<bar>a - b\<bar> \<le> 2 ^ 64 \<Longrightarrow> float_sub a b = Fin (a - b)"
  using float_max_large by (intro float_sub_in_range) linarith

subsection \<open>The sample runs\<close>

lemma sample_main:
  "main sample_world [''benchmark.py'', ''a.csv''] =
     (startup_events sample_world [''benchmark.py'', ''a.csv'']
        @ concat (map (rep_events sample_world ''a.csv'' []) [0..<6]), None)"
  using main_ok [of "[''benchmark.py'', ''a.csv'']" sample_world "VDict []" "[]"]
  by (simp add: read_params_def sample_world_def)

lemma sample_elapsed:
  "map (elapsed_at sample_world) [0..<6] = [Fin 1, Fin 5, Fin 9, Fin 13, Fin 17, Fin 21]"
  by (simp add: upt_6 elapsed_at_def sample_world_def float_sub_small)

lemma sample_elapsed_values:
  "elapsed_values (fst (main sample_world [''benchmark.py'', ''a.csv''])) =
     [Fin 1, Fin 5, Fin 9, Fin 13, Fin 17, Fin 21]"
  by (simp add: sample_main elapsed_values_append elapsed_values_startup
      elapsed_values_reps sample_elapsed)

lemma sample_str_float_values:
  "sample_str_float (Fin 1) = ''1.0''" "sample_str_float (Fin 5) = ''5.0''"
  "sample_str_float (Fin 9) = ''9.0''" "sample_str_float (Fin 13) = ''13.0''"
  "sample_str_float (Fin 17) = ''17.0''" "sample_str_float (Fin 21) = ''21.0''"
  "sample_str_float (Fin 0) = ''0.0''" "sample_str_float (Fin (- 5)) = ''-5.0''"
  by (simp_all add: str_int_def digits.simps digit_char_def)

lemma sample_rows:
  "map (data_row sample_world) [0..<6] =
     [''pandas,1,1.0'', ''pandas,2,5.0'', ''pandas,3,9.0'',
      ''pandas,4,13.0'', ''pandas,5,17.0'', ''pandas,6,21.0'']"
proof -
  have sf: "str_float sample_world = sample_str_float"
    by (simp add: sample_world_def)
  have el: "elapsed_at sample_world 0 = Fin 1" "elapsed_at sample_world 1 = Fin 5"
    "elapsed_at sample_world 2 = Fin 9" "elapsed_at sample_world 3 = Fin 13"
    "elapsed_at sample_world 4 = Fin 17" "elapsed_at sample_world 5 = Fin 21"
    using sample_elapsed by (simp_all add: upt_6)
  show ?thesis
    unfolding data_rows_6 el sf by (simp add: str_int_def digits.simps digit_char_def)
qed

lemma sample_main_options:
  "main sample_world [''benchmark.py'', ''a.csv'', ''dict(header=None)''] =
     (startup_events sample_world [''benchmark.py'', ''a.csv'', ''dict(header=None)'']
        @ concat (map (rep_events sample_world ''a.csv'' [(''header'', VNone)]) [0..<6]), None)"
  using main_ok [of "[''benchmark.py'', ''a.csv'', ''dict(header=None)'']" sample_world
      "VDict [(VStr ''header'', VNone)]" "[(''header'', VNone)]"]
  by (simp add: read_params_def sample_world_def sample_eval_def)

lemma sample_main_print:
  "main sample_world [''benchmark.py'', ''a.csv'', ''print(1) or {}''] =
     (startup_events sample_world [''benchmark.py'', ''a.csv'', ''print(1) or {}'']
        @ concat (map (rep_events sample_world ''a.csv'' []) [0..<6]), None)"
  using main_ok [of "[''benchmark.py'', ''a.csv'', ''print(1) or {}'']" sample_world
      "VDict []" "[]"]
  by (simp add: read_params_def sample_world_def sample_eval_def)



subsection \<open>Normal runs\<close>

text \<open>
  C1, as the specification states it, says that a run that completes normally writes
  exactly seven lines. With the options argument \<^verbatim>\<open>print(1) or {}\<close> the evaluation
  in line 8 writes a line of its own and returns an empty mapping: the run completes
  with exit status 0 and eight lines on standard output.
\<close>

theorem extra_line_counterexample:
  "snd (main sample_world [''benchmark.py'', ''a.csv'', ''print(1) or {}'']) = None
   \<and> exit_status (snd (main sample_world [''benchmark.py'', ''a.csv'', ''print(1) or {}''])) = 0
   \<and> lines_of (stdout sample_world
         (fst (main sample_world [''benchmark.py'', ''a.csv'', ''print(1) or {}'']))) =
       [''1'', ''package,run,elapsed'', ''pandas,1,1.0'', ''pandas,2,5.0'', ''pandas,3,9.0'',
        ''pandas,4,13.0'', ''pandas,5,17.0'', ''pandas,6,21.0'']"
proof -
  have ok: "snd (main sample_world [''benchmark.py'', ''a.csv'', ''print(1) or {}'']) = None"
    by (simp add: sample_main_print)
  have pr: "printed sample_world
              (fst (main sample_world [''benchmark.py'', ''a.csv'', ''print(1) or {}''])) =
            ''package,run,elapsed'' # map (data_row sample_world) [0..<6]"
    by (simp add: sample_main_print printed_append printed_startup printed_reps)
  have out: "options_output sample_world [''benchmark.py'', ''a.csv'', ''print(1) or {}''] =
               ''1'' @ [newline]"
    by (simp add: options_output_def sample_world_def sample_eval_def)
  have "stdout sample_world
          (fst (main sample_world [''benchmark.py'', ''a.csv'', ''print(1) or {}''])) =
        unlines [''1'', ''package,run,elapsed'', ''pandas,1,1.0'', ''pandas,2,5.0'',
          ''pandas,3,9.0'', ''pandas,4,13.0'', ''pandas,5,17.0'', ''pandas,6,21.0'']"
    unfolding stdout_main pr out sample_rows by simp
  then show ?thesis
    using ok by (simp add: newline_def)
qed

text \<open>
  C1, amended: in a run that ends without an exception, the script's own calls of
  \<^verbatim>\<open>print\<close> have written exactly seven lines, the header
  \<^verbatim>\<open>package,run,elapsed\<close> and then six rows with the run numbers 1, 2, 3, 4, 5, 6 in
  this order, each followed by the text of one of the six elapsed values; standard
  output is these seven lines, each ended by a newline, after whatever the evaluation of
  the options wrote (nothing when there is no options argument); the exit status is 0.
\<close>

theorem normal_run_output:
  assumes "snd (main w argv) = None"
  shows "printed w (fst (main w argv)) =
           [''package,run,elapsed'',
            ''pandas,1,'' @ str_float w (elapsed_values (fst (main w argv)) ! 0),
            ''pandas,2,'' @ str_float w (elapsed_values (fst (main w argv)) ! 1),
            ''pandas,3,'' @ str_float w (elapsed_values (fst (main w argv)) ! 2),
            ''pandas,4,'' @ str_float w (elapsed_values (fst (main w argv)) ! 3),
            ''pandas,5,'' @ str_float w (elapsed_values (fst (main w argv)) ! 4),
            ''pandas,6,'' @ str_float w (elapsed_values (fst (main w argv)) ! 5)]
         \<and> length (printed w (fst (main w argv))) = 7
         \<and> length (elapsed_values (fst (main w argv))) = 6
         \<and> stdout w (fst (main w argv)) =
             options_output w argv @ unlines (printed w (fst (main w argv)))
         \<and> (length argv = 2 \<longrightarrow>
               stdout w (fst (main w argv)) = unlines (printed w (fst (main w argv))))
         \<and> exit_status (snd (main w argv)) = 0"
proof -
  from assms obtain kw where run:
    "main w argv =
       (startup_events w argv @ concat (map (rep_events w (argv ! 1) kw) [0..<6]), None)"
    by (rule main_ok_iff)
  have out: "printed w (fst (main w argv)) = ''package,run,elapsed'' # map (data_row w) [0..<6]"
    by (simp add: run printed_append printed_startup printed_reps)
  have el: "elapsed_values (fst (main w argv)) = map (elapsed_at w) [0..<6]"
    by (simp add: run elapsed_values_append elapsed_values_startup elapsed_values_reps)
  have el6: "elapsed_values (fst (main w argv)) =
               [elapsed_at w 0, elapsed_at w 1, elapsed_at w 2, elapsed_at w 3,
                elapsed_at w 4, elapsed_at w 5]"
    unfolding el by (simp add: upt_6)
  have link: "stdout w (fst (main w argv)) =
                options_output w argv @ unlines (printed w (fst (main w argv)))"
    by (rule stdout_main)
  have link2: "length argv = 2 \<longrightarrow>
                 stdout w (fst (main w argv)) = unlines (printed w (fst (main w argv)))"
    unfolding link by (simp add: options_output_def)
  have rows: "printed w (fst (main w argv)) =
           [''package,run,elapsed'',
            ''pandas,1,'' @ str_float w (elapsed_values (fst (main w argv)) ! 0),
            ''pandas,2,'' @ str_float w (elapsed_values (fst (main w argv)) ! 1),
            ''pandas,3,'' @ str_float w (elapsed_values (fst (main w argv)) ! 2),
            ''pandas,4,'' @ str_float w (elapsed_values (fst (main w argv)) ! 3),
            ''pandas,5,'' @ str_float w (elapsed_values (fst (main w argv)) ! 4),
            ''pandas,6,'' @ str_float w (elapsed_values (fst (main w argv)) ! 5)]"
    unfolding out data_rows_6 el6 by simp
  have len: "length (printed w (fst (main w argv))) = 7"
    unfolding out by simp
  have len6: "length (elapsed_values (fst (main w argv))) = 6"
    unfolding el by simp
  show ?thesis
    using rows len len6 link link2 assms by simp
qed

theorem normal_run_output_witness:
  "snd (main sample_world [''benchmark.py'', ''a.csv'']) = None
   \<and> printed sample_world (fst (main sample_world [''benchmark.py'', ''a.csv''])) =
       [''package,run,elapsed'', ''pandas,1,1.0'', ''pandas,2,5.0'', ''pandas,3,9.0'',
        ''pandas,4,13.0'', ''pandas,5,17.0'', ''pandas,6,21.0'']
   \<and> lines_of (stdout sample_world (fst (main sample_world [''benchmark.py'', ''a.csv'']))) =
       [''package,run,elapsed'', ''pandas,1,1.0'', ''pandas,2,5.0'', ''pandas,3,9.0'',
        ''pandas,4,13.0'', ''pandas,5,17.0'', ''pandas,6,21.0'']
   \<and> exit_status (snd (main sample_world [''benchmark.py'', ''a.csv''])) = 0"
proof -
  have ok: "snd (main sample_world [''benchmark.py'', ''a.csv'']) = None"
    by (simp add: sample_main)
  have sf: "str_float sample_world = sample_str_float"
    by (simp add: sample_world_def)
  have pr: "printed sample_world (fst (main sample_world [''benchmark.py'', ''a.csv''])) =
       [''package,run,elapsed'', ''pandas,1,1.0'', ''pandas,2,5.0'', ''pandas,3,9.0'',
        ''pandas,4,13.0'', ''pandas,5,17.0'', ''pandas,6,21.0'']"
    using normal_run_output [OF ok]
    by (simp add: sample_elapsed_values sf str_int_def digits.simps digit_char_def)
  have "stdout sample_world (fst (main sample_world [''benchmark.py'', ''a.csv''])) =
          unlines [''package,run,elapsed'', ''pandas,1,1.0'', ''pandas,2,5.0'',
            ''pandas,3,9.0'', ''pandas,4,13.0'', ''pandas,5,17.0'', ''pandas,6,21.0'']"
    unfolding stdout_main pr by (simp add: options_output_def)
  then show ?thesis
    using ok pr by (simp add: newline_def)
qed

text \<open>
  C3: in every run, complete or not, the \<open>k\<close>-th line the script prints after the
  header is the concatenation of \<^verbatim>\<open>pandas\<close>, a comma, the decimal text of \<open>k\<close>, a
  comma and the text of the float handed to \<^verbatim>\<open>print\<close>, with nothing between or
  around them; that float is what line 17 computed from the two clock readings of the
  repetition, unchanged; the printed lines reach standard output each ended by a newline,
  after whatever the evaluation of the options wrote.
\<close>

theorem data_row_text:
  assumes "0 < k" "k < length (printed w (fst (main w argv)))"
  shows "printed w (fst (main w argv)) ! k =
           ''pandas'' @ '','' @ str_int (int k) @ '',''
             @ str_float w (elapsed_values (fst (main w argv)) ! (k - 1))
         \<and> elapsed_values (fst (main w argv)) ! (k - 1) =
             float_sub (time_time w (2 * (k - 1) + 1)) (time_time w (2 * (k - 1)))
         \<and> stdout w (fst (main w argv)) =
             options_output w argv @ unlines (printed w (fst (main w argv)))"
proof (cases w argv rule: run_shape)
  case silent
  with assms show ?thesis by simp
next
  case (rows n)
  from assms rows have kn: "k - 1 < n" by simp
  have line: "printed w (fst (main w argv)) ! k = data_row w (k - 1)"
    using assms(1) kn by (simp add: rows(2) nth_Cons')
  have el: "elapsed_values (fst (main w argv)) ! (k - 1) = elapsed_at w (k - 1)"
    using kn by (simp add: rows(3))
  have idx: "int (k - 1) + 1 = int k"
    using assms(1) by simp
  have row: "data_row w (k - 1) =
               ''pandas'' @ '','' @ str_int (int k) @ '','' @ str_float w (elapsed_at w (k - 1))"
    unfolding data_row_def idx ..
  show ?thesis
    unfolding line el row using stdout_main [of w argv] by (simp add: elapsed_at_def)
qed

theorem data_row_text_witness:
  "(0::nat) < 3
   \<and> 3 < length (printed sample_world (fst (main sample_world [''benchmark.py'', ''a.csv''])))
   \<and> printed sample_world (fst (main sample_world [''benchmark.py'', ''a.csv''])) ! 3 =
       ''pandas,3,9.0''
   \<and> elapsed_values (fst (main sample_world [''benchmark.py'', ''a.csv''])) ! 2 = Fin (25 - 16)"
proof -
  have len: "3 < length (printed sample_world
                (fst (main sample_world [''benchmark.py'', ''a.csv''])))"
    by (simp add: sample_main printed_append printed_startup printed_reps)
  have sf: "str_float sample_world = sample_str_float"
    by (simp add: sample_world_def)
  show ?thesis
    using data_row_text [of 3 sample_world "[''benchmark.py'', ''a.csv'']"] len
    by (simp add: sample_elapsed_values sf str_int_def digits.simps digit_char_def)
qed

text \<open>
  C4: in a run that ends without an exception, what follows the evaluation of the
  options and the header is six blocks, one per repetition, each made of exactly these
  effects in this order: a garbage collection, a clock reading \<open>start\<close>, a call of the
  parser with the file name \<^verbatim>\<open>sys.argv[1]\<close> and keyword arguments \<open>kw\<close>, a second
  clock reading, and the printing of a row whose float is the second reading minus
  \<open>start\<close>. The keyword arguments are the items of the mapping the options evaluated
  to, key by key and in its order, and none when there is no options argument.
\<close>

theorem repetition_order:
  assumes "snd (main w argv) = None"
  shows "\<exists>kw. (if 2 < length argv then snd (py_eval w (argv ! 2)) = Returns (dict_of kw)
               else kw = [])
           \<and> fst (main w argv) =
               (if 2 < length argv then [Eval (argv ! 2) (fst (py_eval w (argv ! 2)))] else [])
               @ [Print [PStr ''package,run,elapsed''] '' ''] @
               concat (map (\<lambda>i.
                   [GcCollect,
                    TimeRead (time_time w (2 * i)),
                    ReadCsv (argv ! 1) kw,
                    TimeRead (time_time w (2 * i + 1)),
                    Print [PStr ''pandas'', PStr '','', PInt (int i + 1), PStr '','',
                           PFloat (float_sub (time_time w (2 * i + 1)) (time_time w (2 * i)))]
                      ''''])
                 [0..<6])"
proof -
  from assms obtain p kw where p: "snd (read_params w argv) = Inr p"
    and kw: "unpack_kwargs p = Inr kw"
    and run: "main w argv =
       (startup_events w argv @ concat (map (rep_events w (argv ! 1) kw) [0..<6]), None)"
    by (rule main_ok_iff)
  have pd: "p = dict_of kw"
    using kw by (rule unpack_kwargs_dict)
  have opts: "if 2 < length argv then snd (py_eval w (argv ! 2)) = Returns (dict_of kw)
              else kw = []"
  proof (cases "2 < length argv")
    case True
    with p pd show ?thesis
      by (auto simp: snd_read_params split: eval_result.splits)
  next
    case False
    with p have "p = VDict []" by (simp add: snd_read_params)
    with kw False show ?thesis by auto
  qed
  have "fst (main w argv) =
          (if 2 < length argv then [Eval (argv ! 2) (fst (py_eval w (argv ! 2)))] else [])
          @ [Print [PStr ''package,run,elapsed''] '' ''] @
          concat (map (rep_events w (argv ! 1) kw) [0..<6])"
    by (simp add: run startup_events_def header_event_def fst_read_params)
  then show ?thesis
    using opts unfolding rep_events_def by blast
qed

theorem repetition_order_witness:
  "snd (main sample_world [''benchmark.py'', ''a.csv'', ''dict(header=None)'']) = None
   \<and> snd (py_eval sample_world ''dict(header=None)'') = Returns (VDict [(VStr ''header'', VNone)])
   \<and> fst (main sample_world [''benchmark.py'', ''a.csv'', ''dict(header=None)'']) =
       [Eval ''dict(header=None)'' [],
        Print [PStr ''package,run,elapsed''] '' '',
        GcCollect, TimeRead 0, ReadCsv ''a.csv'' [(''header'', VNone)], TimeRead 1,
        Print [PStr ''pandas'', PStr '','', PInt 1, PStr '','', PFloat (Fin 1)] '''',
        GcCollect, TimeRead 4, ReadCsv ''a.csv'' [(''header'', VNone)], TimeRead 9,
        Print [PStr ''pandas'', PStr '','', PInt 2, PStr '','', PFloat (Fin 5)] '''',
        GcCollect, TimeRead 16, ReadCsv ''a.csv'' [(''header'', VNone)], TimeRead 25,
        Print [PStr ''pandas'', PStr '','', PInt 3, PStr '','', PFloat (Fin 9)] '''',
        GcCollect, TimeRead 36, ReadCsv ''a.csv'' [(''header'', VNone)], TimeRead 49,
        Print [PStr ''pandas'', PStr '','', PInt 4, PStr '','', PFloat (Fin 13)] '''',
        GcCollect, TimeRead 64, ReadCsv ''a.csv'' [(''header'', VNone)], TimeRead 81,
        Print [PStr ''pandas'', PStr '','', PInt 5, PStr '','', PFloat (Fin 17)] '''',
        GcCollect, TimeRead 100, ReadCsv ''a.csv'' [(''header'', VNone)], TimeRead 121,
        Print [PStr ''pandas'', PStr '','', PInt 6, PStr '','', PFloat (Fin 21)] '''']"
proof -
  have ok: "snd (main sample_world [''benchmark.py'', ''a.csv'', ''dict(header=None)'']) = None"
    by (simp add: sample_main_options)
  have ev: "py_eval sample_world ''dict(header=None)'' =
              ([], Returns (VDict [(VStr ''header'', VNone)]))"
    by (simp add: sample_world_def sample_eval_def)
  have tt: "time_time sample_world = (\<lambda>n. of_nat (n * n))"
    by (simp add: sample_world_def)
  from repetition_order [OF ok] obtain kw where
    d: "VDict [(VStr ''header'', VNone)] = dict_of kw" and
    tr: "fst (main sample_world [''benchmark.py'', ''a.csv'', ''dict(header=None)'']) =
           [Eval ''dict(header=None)'' []] @ [Print [PStr ''package,run,elapsed''] '' ''] @
           concat (map (\<lambda>i.
               [GcCollect,
                TimeRead (time_time sample_world (2 * i)),
                ReadCsv ''a.csv'' kw,
                TimeRead (time_time sample_world (2 * i + 1)),
                Print [PStr ''pandas'', PStr '','', PInt (int i + 1), PStr '','',
                       PFloat (float_sub (time_time sample_world (2 * i + 1))
                                 (time_time sample_world (2 * i)))]
                  ''''])
             [0..<6])"
    by (auto simp: ev)
  have "unpack_kwargs (dict_of kw) = Inr kw"
    by (rule unpack_kwargs_of_dict)
  then have kw: "kw = [(''header'', VNone)]"
    unfolding d [symmetric] by simp
  show ?thesis
    using ok ev unfolding tr kw by (simp add: tt upt_6 float_sub_small)
qed

subsection \<open>Failing runs\<close>



text \<open>
  C10, as stated, says that when the evaluation of the second argument raises, nothing
  at all has been written to standard output. With the argument
  \<^verbatim>\<open>print(1) or nosuchname\<close> the evaluation in line 8 writes a line of its own and
  then raises NameError: the process ends with that exception and the line is on
  standard output.
\<close>

theorem eval_output_counterexample:
  "snd (py_eval sample_world ''print(1) or nosuchname'') = Raises NameError
   \<and> snd (main sample_world [''benchmark.py'', ''a.csv'', ''print(1) or nosuchname'']) =
       Some (Exception NameError)
   \<and> lines_of (stdout sample_world
         (fst (main sample_world [''benchmark.py'', ''a.csv'', ''print(1) or nosuchname''])))
       = [''1'']"
proof -
  have ev: "py_eval sample_world ''print(1) or nosuchname'' = (''1'' @ [newline], Raises NameError)"
    by (simp add: sample_world_def sample_eval_def)
  have "main sample_world [''benchmark.py'', ''a.csv'', ''print(1) or nosuchname''] =
          ([Eval ''print(1) or nosuchname'' (''1'' @ [newline])], Some (Exception NameError))"
    by (simp add: main_def argv_get_def read_params_def ev)
  then show ?thesis
    by (simp add: ev newline_def)
qed

text \<open>
  C10, amended: with no file argument the process ends with IndexError before anything
  is written to standard output. When the evaluation of the second argument does not
  return (it raises an error, or \<^verbatim>\<open>SystemExit\<close>), the process ends there: the script
  has printed nothing, not even the header, and standard output holds only what the
  expression itself wrote before raising. The file name is read and the options are
  evaluated before the header is printed.
\<close>

theorem early_failure_prints_no_header:
  assumes "length argv \<le> 1
           \<or> (2 < length argv \<and> stopped_by (snd (py_eval w (argv ! 2))) \<noteq> None)"
  shows "printed w (fst (main w argv)) = []
         \<and> stdout w (fst (main w argv)) = options_output w argv
         \<and> snd (main w argv) \<noteq> None
         \<and> (length argv \<le> 1 \<longrightarrow>
               main w argv = ([], Some (Exception IndexError))
               \<and> stdout w (fst (main w argv)) = [])
         \<and> (1 < length argv \<longrightarrow>
               main w argv =
                 ([Eval (argv ! 2) (fst (py_eval w (argv ! 2)))],
                  stopped_by (snd (py_eval w (argv ! 2)))))"
  using assms
proof
  assume "length argv \<le> 1"
  then show ?thesis by (simp add: main_no_filename options_output_def)
next
  assume a: "2 < length argv \<and> stopped_by (snd (py_eval w (argv ! 2))) \<noteq> None"
  then obtain r where r: "stopped_by (snd (py_eval w (argv ! 2))) = Some r" by auto
  with a have "snd (read_params w argv) = Inl r"
    by (cases "snd (py_eval w (argv ! 2))") (simp_all add: snd_read_params)
  with a have "main w argv = (fst (read_params w argv), Some r)"
    by (intro main_eval_stops) simp_all
  with a r show ?thesis
    by (simp add: fst_read_params options_output_def)
qed

theorem early_failure_prints_no_header_witness:
  "length [''benchmark.py''] \<le> 1
   \<and> main sample_world [''benchmark.py''] = ([], Some (Exception IndexError))
   \<and> stdout sample_world (fst (main sample_world [''benchmark.py''])) = []
   \<and> stopped_by (snd (py_eval sample_world ''print(1) or nosuchname'')) \<noteq> None
   \<and> main sample_world [''benchmark.py'', ''a.csv'', ''print(1) or nosuchname''] =
       ([Eval ''print(1) or nosuchname'' (''1'' @ [newline])], Some (Exception NameError))
   \<and> printed sample_world
       (fst (main sample_world [''benchmark.py'', ''a.csv'', ''print(1) or nosuchname''])) = []
   \<and> main sample_world [''benchmark.py'', ''a.csv'', ''sys.exit(0)''] =
       ([Eval ''sys.exit(0)'' []], Some (SystemExit 0))"
proof -
  have ev: "py_eval sample_world ''print(1) or nosuchname'' = (''1'' @ [newline], Raises NameError)"
    by (simp add: sample_world_def sample_eval_def)
  have ev2: "py_eval sample_world ''sys.exit(0)'' = ([], Exits 0)"
    by (simp add: sample_world_def sample_eval_def)
  show ?thesis
    using early_failure_prints_no_header [of "[''benchmark.py'']" sample_world]
      early_failure_prints_no_header
        [of "[''benchmark.py'', ''a.csv'', ''print(1) or nosuchname'']" sample_world]
      early_failure_prints_no_header
        [of "[''benchmark.py'', ''a.csv'', ''sys.exit(0)'']" sample_world]
    by (simp add: ev ev2)
qed

text \<open>
  C2, as the specification states it, says that an unusable options argument makes the
  tool fail in the evaluation step. The expression \<^verbatim>\<open>5\<close> is unusable (an integer is
  not a mapping), yet its evaluation succeeds: the header is printed, the first
  repetition collects garbage and reads the clock, and the call in line 16 raises
  TypeError while unpacking.
\<close>

theorem options_five_counterexample:
  "malformed_options sample_world [''benchmark.py'', ''a.csv'', ''5'']
   \<and> py_eval sample_world ''5'' = ([], Returns (VInt 5))
   \<and> main sample_world [''benchmark.py'', ''a.csv'', ''5''] =
       ([Eval ''5'' [], Print [PStr ''package,run,elapsed''] '' '', GcCollect, TimeRead 0],
        Some (Exception TypeError))"
proof -
  have ev: "py_eval sample_world ''5'' = ([], Returns (VInt 5))"
    by (simp add: sample_world_def sample_eval_def)
  have rp: "read_params sample_world [''benchmark.py'', ''a.csv'', ''5''] =
              ([Eval ''5'' []], Inr (VInt 5))"
    by (simp add: read_params_def ev)
  have "main sample_world [''benchmark.py'', ''a.csv'', ''5''] =
          (startup_events sample_world [''benchmark.py'', ''a.csv'', ''5'']
             @ [GcCollect, TimeRead (time_time sample_world 0)], Some (Exception TypeError))"
    by (rule main_type_error [where p = "VInt 5"]) (simp_all add: rp)
  moreover have "time_time sample_world 0 = 0"
    by (simp add: sample_world_def)
  ultimately show ?thesis
    by (simp add: malformed_options_def ev startup_events_def rp header_event_def)
qed

text \<open>
  C2, amended: an options argument whose evaluation raises an error, or which evaluates
  to something that is not a mapping with string keys, makes the tool fail before the
  parser is entered and before any row is printed. When the evaluation raises, that
  exception ends the process before the header is printed; when the evaluation returns
  an unusable value, the header is printed and TypeError is raised by the call in the
  first repetition.
\<close>

theorem malformed_options_fail_before_parser:
  assumes "malformed_options w argv"
  shows "snd (main w argv) \<noteq> None
         \<and> exit_status (snd (main w argv)) \<noteq> 0
         \<and> parser_calls (fst (main w argv)) = []
         \<and> elapsed_values (fst (main w argv)) = []
         \<and> (printed w (fst (main w argv)) = []
              \<or> printed w (fst (main w argv)) = [''package,run,elapsed''])
         \<and> (\<forall>e. snd (py_eval w (argv ! 2)) = Raises e \<longrightarrow>
               main w argv =
                 ([Eval (argv ! 2) (fst (py_eval w (argv ! 2)))], Some (Exception e)))
         \<and> (\<forall>v. snd (py_eval w (argv ! 2)) = Returns v \<longrightarrow>
               main w argv =
                 ([Eval (argv ! 2) (fst (py_eval w (argv ! 2))),
                   Print [PStr ''package,run,elapsed''] '' '',
                   GcCollect, TimeRead (time_time w 0)],
                  Some (Exception TypeError)))"
proof (cases "snd (py_eval w (argv ! 2))")
  case (Raises e)
  from assms have len: "2 < length argv" by (simp add: malformed_options_def)
  have "snd (read_params w argv) = Inl (Exception e)"
    using len Raises by (simp add: snd_read_params)
  then have "main w argv = (fst (read_params w argv), Some (Exception e))"
    using len by (intro main_eval_stops) simp_all
  then show ?thesis
    using len Raises by (simp add: fst_read_params)
next
  case (Returns v)
  from assms have len: "2 < length argv" by (simp add: malformed_options_def)
  from assms Returns obtain e where e: "unpack_kwargs v = Inl e"
    by (auto simp: malformed_options_def split: sum.splits)
  then have te: "e = TypeError" by (rule unpack_kwargs_error)
  have rp: "snd (read_params w argv) = Inr v"
    using len Returns by (simp add: snd_read_params)
  have "main w argv =
          (startup_events w argv @ [GcCollect, TimeRead (time_time w 0)], Some (Exception e))"
    using len e by (intro main_type_error [where p = v]) (simp_all add: rp)
  then show ?thesis
    using len
    by (simp add: Returns te startup_events_def fst_read_params header_event_def
        line_of_header)
next
  case (Exits c)
  with assms show ?thesis by (simp add: malformed_options_def)
qed

theorem malformed_options_fail_before_parser_witness:
  "malformed_options sample_world [''benchmark.py'', ''a.csv'', ''nosuchname'']
   \<and> main sample_world [''benchmark.py'', ''a.csv'', ''nosuchname''] =
       ([Eval ''nosuchname'' []], Some (Exception NameError))
   \<and> malformed_options sample_world [''benchmark.py'', ''a.csv'', ''{1: 2}'']
   \<and> main sample_world [''benchmark.py'', ''a.csv'', ''{1: 2}''] =
       ([Eval ''{1: 2}'' [], Print [PStr ''package,run,elapsed''] '' '', GcCollect, TimeRead 0],
        Some (Exception TypeError))
   \<and> printed sample_world (fst (main sample_world [''benchmark.py'', ''a.csv'', ''{1: 2}''])) =
       [''package,run,elapsed'']"
proof -
  have ev1: "py_eval sample_world ''nosuchname'' = ([], Raises NameError)"
    by (simp add: sample_world_def sample_eval_def)
  have ev2: "py_eval sample_world ''{1: 2}'' = ([], Returns (VDict [(VInt 1, VInt 2)]))"
    by (simp add: sample_world_def sample_eval_def)
  have t0: "time_time sample_world 0 = 0"
    by (simp add: sample_world_def)
  have m1: "malformed_options sample_world [''benchmark.py'', ''a.csv'', ''nosuchname'']"
    by (simp add: malformed_options_def ev1)
  have m2: "malformed_options sample_world [''benchmark.py'', ''a.csv'', ''{1: 2}'']"
    by (simp add: malformed_options_def ev2)
  show ?thesis
    using malformed_options_fail_before_parser [OF m1]
      malformed_options_fail_before_parser [OF m2] m1 m2
    by (simp add: ev1 ev2 t0 line_of_def)
qed

subsection \<open>The parameters\<close>

text \<open>
  C6: with exactly one argument after the script name, \<^verbatim>\<open>eval\<close> is never called,
  the parser is called at least once, and every call of the parser receives the file
  name and no keyword arguments.
\<close>

theorem no_options_argument:
  assumes "length argv = 2"
  shows "eval_calls (fst (main w argv)) = []
         \<and> parser_calls (fst (main w argv)) \<noteq> []
         \<and> parser_calls (fst (main w argv)) =
             replicate (length (parser_calls (fst (main w argv)))) (argv ! 1, [])"
proof -
  from assms have rp: "read_params w argv = ([], Inr (VDict []))"
    by (simp add: read_params_short)
  have ev: "eval_calls (startup_events w argv) = []"
    using assms by (simp add: eval_calls_startup)
  show ?thesis
  proof (cases w argv rule: main_cases)
    case no_filename
    with assms show ?thesis by simp
  next
    case (eval_stops r)
    with assms show ?thesis by simp
  next
    case (type_error p e)
    with rp show ?thesis by auto
  next
    case (parser_error p kw k e)
    with rp have kw: "kw = []" by auto
    have "replicate k (argv ! 1, []) @ [(argv ! 1, [])] = replicate (Suc k) (argv ! 1, [])"
      by (simp add: replicate_append_same)
    then show ?thesis
      using parser_error(7) kw
      by (simp add: eval_calls_append ev eval_calls_reps eval_calls_failed_rep
          parser_calls_append parser_calls_startup parser_calls_reps parser_calls_failed_rep)
  next
    case (ok p kw)
    with rp have kw: "kw = []" by auto
    show ?thesis
      using ok(5) kw
      by (simp add: eval_calls_append ev eval_calls_reps
          parser_calls_append parser_calls_startup parser_calls_reps)
  qed
qed

theorem no_options_argument_witness:
  "length [''benchmark.py'', ''a.csv''] = 2
   \<and> eval_calls (fst (main sample_world [''benchmark.py'', ''a.csv''])) = []
   \<and> parser_calls (fst (main sample_world [''benchmark.py'', ''a.csv''])) =
       replicate 6 (''a.csv'', [])"
proof -
  have n: "length (parser_calls (fst (main sample_world [''benchmark.py'', ''a.csv'']))) = 6"
    by (simp add: sample_main parser_calls_append parser_calls_startup parser_calls_reps)
  show ?thesis
    using no_options_argument [of "[''benchmark.py'', ''a.csv'']" sample_world]
    by (simp add: n)
qed

text \<open>
  C7: the options are evaluated at most once, as the first effect of the process, and
  only when there is a second argument; every call of the parser, in whatever run,
  receives the same file name \<^verbatim>\<open>sys.argv[1]\<close> and the same keyword arguments, the
  unpacked options; a run that ends without an exception has made exactly six such calls.
\<close>

theorem parameters_read_once:
  "eval_calls (fst (main w argv)) = (if 2 < length argv then [argv ! 2] else [])
   \<and> (2 < length argv \<longrightarrow>
         hd (fst (main w argv)) = Eval (argv ! 2) (fst (py_eval w (argv ! 2))))
   \<and> (\<exists>n kw. n \<le> 6
         \<and> parser_calls (fst (main w argv)) = replicate n (argv ! 1, kw)
         \<and> (snd (main w argv) = None \<longrightarrow> n = 6)
         \<and> (0 < n \<longrightarrow> (\<exists>p. snd (read_params w argv) = Inr p \<and> unpack_kwargs p = Inr kw)))"
proof (cases w argv rule: main_cases)
  case no_filename
  then show ?thesis by simp
next
  case (eval_stops r)
  then show ?thesis by simp
next
  case (type_error p e)
  then show ?thesis
    by (simp add: eval_calls_append eval_calls_startup
        parser_calls_append parser_calls_startup hd_startup)
next
  case (parser_error p kw k e)
  have calls: "parser_calls (fst (main w argv)) = replicate (Suc k) (argv ! 1, kw)"
    using parser_error(7)
    by (simp add: parser_calls_append parser_calls_startup parser_calls_reps
        parser_calls_failed_rep replicate_append_same)
  have ev: "eval_calls (fst (main w argv)) = (if 2 < length argv then [argv ! 2] else [])"
    using parser_error(7)
    by (simp add: eval_calls_append eval_calls_startup eval_calls_reps eval_calls_failed_rep)
  have first: "2 < length argv \<longrightarrow>
                 hd (fst (main w argv)) = Eval (argv ! 2) (fst (py_eval w (argv ! 2)))"
    using parser_error(7) by (simp add: hd_startup)
  have "Suc k \<le> 6" using parser_error(4) by simp
  moreover have "snd (main w argv) = Some (Exception e)" using parser_error(7) by simp
  ultimately show ?thesis
    using calls ev first parser_error(2,3)
    by (intro conjI exI [of _ "Suc k"] exI [of _ kw]) simp_all
next
  case (ok p kw)
  have calls: "parser_calls (fst (main w argv)) = replicate 6 (argv ! 1, kw)"
    using ok(5) by (simp add: parser_calls_append parser_calls_startup parser_calls_reps)
  have ev: "eval_calls (fst (main w argv)) = (if 2 < length argv then [argv ! 2] else [])"
    using ok(5) by (simp add: eval_calls_append eval_calls_startup eval_calls_reps)
  have first: "2 < length argv \<longrightarrow>
                 hd (fst (main w argv)) = Eval (argv ! 2) (fst (py_eval w (argv ! 2)))"
    using ok(5) by (simp add: hd_startup)
  show ?thesis
    using calls ev first ok(2,3)
    by (intro conjI exI [of _ 6] exI [of _ kw]) simp_all
qed

theorem parameters_read_once_witness:
  "snd (main sample_world [''benchmark.py'', ''a.csv'', ''dict(header=None)'']) = None
   \<and> eval_calls (fst (main sample_world [''benchmark.py'', ''a.csv'', ''dict(header=None)''])) =
       [''dict(header=None)'']
   \<and> hd (fst (main sample_world [''benchmark.py'', ''a.csv'', ''dict(header=None)''])) =
       Eval ''dict(header=None)'' []
   \<and> parser_calls (fst (main sample_world [''benchmark.py'', ''a.csv'', ''dict(header=None)''])) =
       replicate 6 (''a.csv'', [(''header'', VNone)])"
proof -
  have ok: "snd (main sample_world [''benchmark.py'', ''a.csv'', ''dict(header=None)'']) = None"
    by (simp add: sample_main_options)
  have ev: "py_eval sample_world ''dict(header=None)'' =
              ([], Returns (VDict [(VStr ''header'', VNone)]))"
    by (simp add: sample_world_def sample_eval_def)
  have rp: "snd (read_params sample_world [''benchmark.py'', ''a.csv'', ''dict(header=None)'']) =
              Inr (VDict [(VStr ''header'', VNone)])"
    by (simp add: snd_read_params ev)
  show ?thesis
    using parameters_read_once [of sample_world
        "[''benchmark.py'', ''a.csv'', ''dict(header=None)'']"] ok
    by (auto simp: rp ev)
qed

subsection \<open>The elapsed values\<close>






end
